theory Spec2Isabelle
  imports Main "HOL-Library.Word"
begin

section \<open>The fluentd adapter of logspout (adapter.go)\<close>

text \<open>
  The adapter has two entry points: \<open>NewAdapter\<close>, which reads its settings from the
  process environment, probes the collector with a bounded dial loop and builds the
  fluent client, and \<open>Adapter.Stream\<close>, which drains a channel of container log
  messages and posts each non-blank one to the client.

  Go's \<open>int\<close> is taken at 64 bits (amd64, arm64), \<open>time.Duration\<close> is an \<open>int64\<close> of
  nanoseconds. Strings are byte strings, as in Go.
\<close>

subsection \<open>Errors, log operands and observable events\<close>

datatype error =
    ErrorNew string                \<comment> \<open>\<open>errors.New(msg)\<close>\<close>
  | ErrSyntax string string        \<comment> \<open>\<open>*strconv.NumError\<close> with \<open>ErrSyntax\<close>: function, input\<close>
  | ErrRange string string         \<comment> \<open>\<open>*strconv.NumError\<close> with \<open>ErrRange\<close>: function, input\<close>
  | External string                \<comment> \<open>an error value returned by a collaborator\<close>
  | Wrapf error string "string list" \<comment> \<open>\<open>errors.Wrapf(err, format, args...)\<close>\<close>

datatype operand = S string | E error | I int

type_synonym time = int
type_synonym fluent_record = "string \<rightharpoonup> string"
type_synonym Duration = "64 word"

datatype event =
    Println "operand list"               \<comment> \<open>\<open>log.Println(v...)\<close>\<close>
  | Printf string "operand list"         \<comment> \<open>\<open>log.Printf(format, v...)\<close>\<close>
  | PostCall string time fluent_record          \<comment> \<open>\<open>ad.writer.PostWithTime(tag, time, record)\<close>\<close>
  | DialCall string "string \<rightharpoonup> string"  \<comment> \<open>\<open>transport.Dial(address, options)\<close>\<close>
  | Sleep Duration                       \<comment> \<open>\<open>time.Sleep(d)\<close>\<close>

subsection \<open>Environment\<close>

type_synonym environ = "string \<rightharpoonup> string"

text \<open>\<open>os.Getenv\<close>: the value of the variable, empty when it is not present.\<close>

definition os_Getenv :: "environ \<Rightarrow> string \<Rightarrow> string" where
  "os_Getenv env key = (case env key of None \<Rightarrow> [] | Some v \<Rightarrow> v)"

definition getenv :: "environ \<Rightarrow> string \<Rightarrow> string \<Rightarrow> string" where
  "getenv env key fallback =
     (let value = os_Getenv env key in
      if length value = 0 then fallback else value)"

definition debug :: "environ \<Rightarrow> operand list \<Rightarrow> event list" where
  "debug env v = (if os_Getenv env ''DEBUG'' = ''true'' then [Println v] else [])"

subsection \<open>Messages\<close>

text \<open>
  Modelled from the spec: \<open>router.Message\<close> and \<open>docker.Container\<close> are declared by
  logspout and go-dockerclient, outside this repository. The fields are those of the
  spec's InboundMessage, nested as the adapter reads them
  (\<open>message.Container.Config.Labels\<close>).
\<close>

record Config =
  Hostname :: string
  Labels :: "string \<rightharpoonup> string"

record Container =
  ID :: string
  Name :: string
  Config :: Config

record Message =
  Container :: Container
  Source :: string
  Data :: string
  Time :: time

text \<open>Indexing a Go map: the zero value when the key is absent.\<close>

definition index :: "(string \<rightharpoonup> string) \<Rightarrow> string \<Rightarrow> string" where
  "index m k = (case m k of None \<Rightarrow> [] | Some v \<Rightarrow> v)"

subsection \<open>The blank-line pattern\<close>

text \<open>
  \<open>regexp.MatchString("^[[:space:]]*$", message.Data)\<close>. The pattern is a sequence of
  three nodes: begin of text, a starred character class, end of text. \<open>MatchString\<close>
  looks for a match starting at any position of the input. The class \<open>[[:space:]]\<close>
  is ASCII only (\<open>[\t\n\v\f\r ]\<close>), and no byte of a multi-byte UTF-8 sequence is ASCII, so
  matching byte by byte agrees with matching rune by rune.
\<close>

datatype node = BeginText | EndText | StarClass "char \<Rightarrow> bool"

definition posix_space :: "char \<Rightarrow> bool" where
  "posix_space c =
     (c = CHR 0x09 \<or> c = CHR 0x0A \<or> c = CHR 0x0B \<or> c = CHR 0x0C \<or> c = CHR 0x0D \<or> c = CHR '' '')"

definition blank_pattern :: "node list" where
  "blank_pattern = [BeginText, StarClass posix_space, EndText]"

text \<open>
  \<open>match_here re at_start s\<close>: the pattern \<open>re\<close> matches a prefix of \<open>s\<close>, where
  \<open>at_start\<close> says whether \<open>s\<close> is the whole input.
\<close>

fun match_here :: "node list \<Rightarrow> bool \<Rightarrow> string \<Rightarrow> bool" where
  "match_here [] at_start s = True"
| "match_here (BeginText # re) at_start s = (at_start \<and> match_here re at_start s)"
| "match_here (EndText # re) at_start s = (s = [] \<and> match_here re at_start s)"
| "match_here (StarClass p # re) at_start [] = match_here re at_start []"
| "match_here (StarClass p # re) at_start (c # cs) =
     (match_here re at_start (c # cs) \<or> (p c \<and> match_here (StarClass p # re) False cs))"

fun match_from :: "node list \<Rightarrow> bool \<Rightarrow> string \<Rightarrow> bool" where
  "match_from re at_start [] = match_here re at_start []"
| "match_from re at_start (c # cs) = (match_here re at_start (c # cs) \<or> match_from re False cs)"

definition MatchString :: "node list \<Rightarrow> string \<Rightarrow> bool" where
  "MatchString re s = match_from re True s"

subsection \<open>Adapter.Stream\<close>

text \<open>
  The fluent client is a collaborator: its state is a value of type \<open>'s\<close> and its
  \<open>PostWithTime\<close> a function from a state and the arguments to an error (or none) and
  the next state. The channel is the list of messages sent before it was closed.
\<close>

record 's Adapter =
  writer :: 's
  tagPrefix :: string
  tagSuffixLabel :: string

type_synonym 's post = "'s \<Rightarrow> string \<Rightarrow> time \<Rightarrow> fluent_record \<Rightarrow> error option \<times> 's"

text \<open>The two blocks of the loop body that compute the arguments of the post: ``Set tag'' and ``Construct record''.\<close>

definition set_tag :: "'s Adapter \<Rightarrow> Message \<Rightarrow> string" where
  "set_tag ad message =
     (let tag = [];
          tag = (if length (tagPrefix ad) > 0 then tagPrefix ad else tag);
          tagSuffix = index (Labels (Config (Container message))) (tagSuffixLabel ad);
          tagSuffix = (if tagSuffix = []
                       then Name (Container message) @ ''-'' @ Hostname (Config (Container message))
                       else tagSuffix)
      in tag @ ''.'' @ tagSuffix)"

definition construct_record :: "Message \<Rightarrow> fluent_record" where
  "construct_record message =
     [''log'' \<mapsto> Data message,
      ''container_id'' \<mapsto> ID (Container message),
      ''container_name'' \<mapsto> Name (Container message),
      ''source'' \<mapsto> Source message]"

text \<open>
  One turn of the \<open>for message := range logstream\<close> loop. The error of \<open>MatchString\<close> is
  ignored by the source (the pattern is a constant that compiles).
\<close>

definition iteration :: "'s post \<Rightarrow> environ \<Rightarrow> 's Adapter \<Rightarrow> 's \<Rightarrow> Message \<Rightarrow> 's \<times> event list" where
  "iteration post env ad w message =
     (let ev0 = debug env [S ''container: '', S (ID (Container message)), S (Name (Container message))];
          messageIsEmpty = MatchString blank_pattern (Data message)
      in if messageIsEmpty then (w, ev0 @ debug env [S ''Skipping empty message!''])
         else
           let tag = set_tag ad message;
               record = construct_record message
           in (case post w tag (Time message) record of
                 (Some err, w') \<Rightarrow>
                   (w', ev0 @ [PostCall tag (Time message) record,
                               Println [S ''fluentd-adapter PostWithTime Error: '', E err]])
               | (None, w') \<Rightarrow> (w', ev0 @ [PostCall tag (Time message) record])))"

fun range_loop :: "'s post \<Rightarrow> environ \<Rightarrow> 's Adapter \<Rightarrow> 's \<Rightarrow> Message list \<Rightarrow> 's \<times> event list" where
  "range_loop post env ad w [] = (w, [])"
| "range_loop post env ad w (message # logstream) =
     (case iteration post env ad w message of
        (w', evs) \<Rightarrow> (case range_loop post env ad w' logstream of
                        (w'', evs') \<Rightarrow> (w'', evs @ evs')))"

definition Stream :: "'s post \<Rightarrow> environ \<Rightarrow> 's Adapter \<Rightarrow> Message list \<Rightarrow> 's \<times> event list" where
  "Stream post env ad logstream =
     (case range_loop post env ad (writer ad) logstream of
        (w, evs) \<Rightarrow> (w, debug env [S ''received message from container''] @ evs))"

text \<open>The calls of \<open>PostWithTime\<close> in a trace, in order.\<close>

fun postCalls :: "event list \<Rightarrow> (string \<times> time \<times> fluent_record) list" where
  "postCalls [] = []"
| "postCalls (PostCall tag t r # evs) = (tag, t, r) # postCalls evs"
| "postCalls (_ # evs) = postCalls evs"

text \<open>The errors logged by the loop, in order: its log line is the only one made of a string and an error.\<close>

fun postErrors :: "event list \<Rightarrow> error list" where
  "postErrors [] = []"
| "postErrors (Println [S s, E err] # evs) = err # postErrors evs"
| "postErrors (_ # evs) = postErrors evs"

subsection \<open>strconv\<close>

text \<open>
  \<open>strconv.Atoi\<close>, \<open>strconv.Itoa\<close> and \<open>strconv.ParseBool\<close> of the Go standard library.
  \<open>Atoi\<close> takes an optional sign and then scans the digits from the left, as \<open>ParseUint\<close>
  does in base 10 for 64 bits: a byte that is not a digit is a syntax error at once, a
  value that leaves the unsigned 64-bit range is a range error at once; at the end the
  signed value must fit an \<open>int\<close>. (The short-input fast path of \<open>Atoi\<close> gives the same
  results: below 19 bytes no value leaves the range.)
\<close>

definition is_digit :: "char \<Rightarrow> bool" where
  "is_digit ch = (48 \<le> (of_char ch :: nat) \<and> (of_char ch :: nat) \<le> 57)"

fun scan_digits :: "string \<Rightarrow> int \<Rightarrow> string \<Rightarrow> error + int" where
  "scan_digits s0 n [] = Inr n"
| "scan_digits s0 n (c # cs) =
     (if is_digit c then
        (if 18446744073709551615 div 10 + 1 \<le> n then Inl (ErrRange ''Atoi'' s0)
         else
           (let n1 = n * 10 + (of_char c - 48)
            in if 18446744073709551615 < n1 then Inl (ErrRange ''Atoi'' s0)
               else scan_digits s0 n1 cs))
      else Inl (ErrSyntax ''Atoi'' s0))"

definition Atoi :: "string \<Rightarrow> error + int" where
  "Atoi s =
     (let digits = (case s of [] \<Rightarrow> [] | ch # rest \<Rightarrow> if ch = CHR ''-'' \<or> ch = CHR ''+'' then rest else s);
          negative = (case s of [] \<Rightarrow> False | ch # rest \<Rightarrow> ch = CHR ''-'')
      in if digits = [] then Inl (ErrSyntax ''Atoi'' s)
         else
           (case scan_digits s 0 digits of
              Inl err \<Rightarrow> Inl err
            | Inr un \<Rightarrow>
                if negative then (if 2 ^ 63 < un then Inl (ErrRange ''Atoi'' s) else Inr (- un))
                else (if 2 ^ 63 \<le> un then Inl (ErrRange ''Atoi'' s) else Inr un)))"

definition digit :: "nat \<Rightarrow> char" where
  "digit n = ''0123456789'' ! n"

function decimal :: "nat \<Rightarrow> string" where
  "decimal n = (if n < 10 then [digit n] else decimal (n div 10) @ [digit (n mod 10)])"
  by pat_completeness auto
termination
  by (relation "measure id") auto

declare decimal.simps [simp del]

definition Itoa :: "int \<Rightarrow> string" where
  "Itoa i = (if i < 0 then CHR ''-'' # decimal (nat (- i)) else decimal (nat i))"

definition ParseBool :: "string \<Rightarrow> error + bool" where
  "ParseBool str =
     (if str = ''1'' \<or> str = ''t'' \<or> str = ''T'' \<or> str = ''true'' \<or> str = ''TRUE'' \<or> str = ''True''
      then Inr True
      else if str = ''0'' \<or> str = ''f'' \<or> str = ''F'' \<or> str = ''false'' \<or> str = ''FALSE'' \<or> str = ''False''
      then Inr False
      else Inl (ErrSyntax ''ParseBool'' str))"

subsection \<open>NewAdapter\<close>

definition defaultProtocol :: string where "defaultProtocol = ''tcp''"
definition defaultBufferLimit :: int where "defaultBufferLimit = 1024 * 1024"
definition defaultWriteTimeout :: int where "defaultWriteTimeout = 3"
definition defaultRetryWait :: int where "defaultRetryWait = 1000"
definition defaultMaxRetries :: int where "defaultMaxRetries = 2147483647"

text \<open>\<open>time.Second\<close>, in nanoseconds.\<close>

definition Second :: Duration where "Second = 1000000000"

text \<open>\<open>time.Sleep\<close> returns at once when the duration is negative or zero.\<close>

definition slept_nanoseconds :: "Duration \<Rightarrow> int" where
  "slept_nanoseconds d = (if sint d \<le> 0 then 0 else sint d)"

record Route =
  Adapter :: string
  Address :: string
  Options :: "string \<rightharpoonup> string"

record fluent_Config =
  FluentHost :: string
  FluentPort :: int
  FluentNetwork :: string
  FluentSocketPath :: string
  BufferLimit :: int
  RetryWait :: int
  MaxRetry :: int
  Async :: bool
  SubSecondPrecision :: bool
  RequestAck :: bool
  WriteTimeout :: Duration

text \<open>
  What \<open>NewAdapter\<close> calls outside this repository:
  \<^item> \<open>Lookup\<close>: whether \<open>router.AdapterTransports.Lookup(route.AdapterTransport("tcp"))\<close>
    finds a transport;
  \<^item> \<open>Dial\<close>: the outcome of the \<open>n\<close>-th call (from 0) of \<open>transport.Dial\<close>, which the loop
    always makes with the same arguments; \<open>None\<close> is a connection;
  \<^item> \<open>SplitHostPort\<close>: \<open>net.SplitHostPort\<close>, host, port and error;
  \<^item> \<open>fluent_New\<close>: \<open>fluent.New\<close>, an error or the client.
\<close>

record 's collaborators =
  Lookup :: "Route \<Rightarrow> bool"
  Dial :: "nat \<Rightarrow> error option"
  SplitHostPort :: "string \<Rightarrow> string \<times> string \<times> error option"
  fluent_New :: "fluent_Config \<Rightarrow> error + 's"

text \<open>
  The loop \<open>for i := 0; i <= connMaxRetries; i++\<close>, from the value \<open>i\<close> on. The counter is
  only incremented below \<open>connMaxRetries\<close>, so it never overflows.
\<close>

function dial_loop :: "(nat \<Rightarrow> error option) \<Rightarrow> Route \<Rightarrow> int \<Rightarrow> int \<Rightarrow> int \<Rightarrow> error option \<times> event list" where
  "dial_loop dial route connMaxRetries connRetryWait i =
     (if i \<le> connMaxRetries then
        (case dial (nat i) of
           Some err \<Rightarrow>
             if i = connMaxRetries
             then (Some err, [DialCall (Address route) (Options route),
                              Printf (''Error: %v'' @ [CHR 0x0A]) [E err]])
             else (case dial_loop dial route connMaxRetries connRetryWait (i + 1) of
                     (result, evs) \<Rightarrow>
                       (result, [DialCall (Address route) (Options route),
                                 Printf (''Error: %v'' @ [CHR 0x0A]) [E err],
                                 Printf (''Retrying in %d seconds...'' @ [CHR 0x0A]) [I connRetryWait],
                                 Sleep (word_of_int connRetryWait * Second)] @ evs))
         | None \<Rightarrow>
             (None, [DialCall (Address route) (Options route),
                     Println [S (''Connectivity successful to fluentd @ '' @ Address route)]]))
      else (None, []))"
  by pat_completeness auto
termination
  by (relation "measure (\<lambda>(dial, route, connMaxRetries, connRetryWait, i). nat (connMaxRetries + 1 - i))") auto

declare dial_loop.simps [simp del]

text \<open>From ``Construct fluentd config object'' to the end of \<open>NewAdapter\<close>.\<close>

definition construct :: "'s collaborators \<Rightarrow> environ \<Rightarrow> Route \<Rightarrow> error + 's Adapter" where
  "construct ext env route =
     (case SplitHostPort ext (Address route) of (host, port, _) \<Rightarrow>
     (case Atoi port of
        Inl err \<Rightarrow> Inl (Wrapf err ''Invalid fluentd-address %s'' [Address route])
      | Inr portNum \<Rightarrow>
     (case Atoi (getenv env ''FLUENTD_BUFFER_LIMIT'' (Itoa defaultBufferLimit)) of
        Inl err \<Rightarrow> Inl err
      | Inr bufferLimit \<Rightarrow>
     (case Atoi (getenv env ''FLUENTD_RETRY_WAIT'' (Itoa defaultRetryWait)) of
        Inl err \<Rightarrow> Inl err
      | Inr retryWait \<Rightarrow>
     (case Atoi (getenv env ''FLUENTD_MAX_RETRIES'' (Itoa defaultMaxRetries)) of
        Inl err \<Rightarrow> Inl err
      | Inr maxRetries \<Rightarrow>
     (case ParseBool (getenv env ''FLUENTD_ASYNC_CONNECT'' ''false'') of
        Inl err \<Rightarrow> Inl err
      | Inr asyncConnect \<Rightarrow>
     (case ParseBool (getenv env ''FLUENTD_SUBSECOND_PRECISION'' ''false'') of
        Inl err \<Rightarrow> Inl err
      | Inr subSecondPrecision \<Rightarrow>
     (case ParseBool (getenv env ''FLUENTD_REQUEST_ACK'' ''false'') of
        Inl err \<Rightarrow> Inl err
      | Inr requestAck \<Rightarrow>
     (case Atoi (getenv env ''FLUENTD_WRITE_TIMEOUT'' (Itoa defaultWriteTimeout)) of
        Inl err \<Rightarrow> Inl err
      | Inr writeTimeout \<Rightarrow>
     (case fluent_New ext
             \<lparr>FluentHost = host,
              FluentPort = portNum,
              FluentNetwork = defaultProtocol,
              FluentSocketPath = [],
              BufferLimit = bufferLimit,
              RetryWait = retryWait,
              MaxRetry = maxRetries,
              Async = asyncConnect,
              SubSecondPrecision = subSecondPrecision,
              RequestAck = requestAck,
              WriteTimeout = word_of_int writeTimeout * Second\<rparr> of
        Inl err \<Rightarrow> Inl (Wrapf err ''Unable to create fluentd logger'' [])
      | Inr w \<Rightarrow>
          Inr \<lparr>writer = w,
               tagPrefix = getenv env ''TAG_PREFIX'' ''docker'',
               tagSuffixLabel = getenv env ''TAG_SUFFIX_LABEL'' []\<rparr>))))))))))"

definition NewAdapter :: "'s collaborators \<Rightarrow> environ \<Rightarrow> Route \<Rightarrow> (error + 's Adapter) \<times> event list" where
  "NewAdapter ext env route =
     (if \<not> Lookup ext route then (Inl (ErrorNew (''Unable to find adapter: '' @ Adapter route)), [])
      else
       (case Atoi (getenv env ''CONNECTION_MAX_RETRIES'' ''10'') of
          Inl err \<Rightarrow> (Inl err, [])
        | Inr connMaxRetries \<Rightarrow>
       (case Atoi (getenv env ''CONNECTION_RETRY_WAIT'' ''1'') of
          Inl err \<Rightarrow> (Inl err, [])
        | Inr connRetryWait \<Rightarrow>
       (case dial_loop (Dial ext) route connMaxRetries connRetryWait 0 of
          (Some err, evs) \<Rightarrow> (Inl err, evs)
        | (None, evs) \<Rightarrow> (construct ext env route, evs)))))"

text \<open>The dial attempts and the sleeps of a trace, in order.\<close>

fun dialCalls :: "event list \<Rightarrow> nat" where
  "dialCalls [] = 0"
| "dialCalls (DialCall address options # evs) = Suc (dialCalls evs)"
| "dialCalls (_ # evs) = dialCalls evs"

fun sleeps :: "event list \<Rightarrow> Duration list" where
  "sleeps [] = []"
| "sleeps (Sleep d # evs) = d # sleeps evs"
| "sleeps (_ # evs) = sleeps evs"

text \<open>The dial attempts and the sleeps of a trace without the log lines between them.\<close>

fun probe_steps :: "event list \<Rightarrow> event list" where
  "probe_steps [] = []"
| "probe_steps (DialCall address options # evs) = DialCall address options # probe_steps evs"
| "probe_steps (Sleep d # evs) = Sleep d # probe_steps evs"
| "probe_steps (_ # evs) = probe_steps evs"

section \<open>Sample inputs and stand-ins for the collaborators\<close>

definition web1 :: Container where
  "web1 = \<lparr>ID = ''c0ffee'', Name = ''web1'', Config = \<lparr>Hostname = ''host-a'', Labels = Map.empty\<rparr>\<rparr>"

definition api1 :: Container where
  "api1 = \<lparr>ID = ''abc123'', Name = ''api1'', Config = \<lparr>Hostname = ''host-b'', Labels = [''svc'' \<mapsto> ''api'']\<rparr>\<rparr>"

definition line :: "Container \<Rightarrow> string \<Rightarrow> time \<Rightarrow> Message" where
  "line c d t = \<lparr>Container = c, Source = ''stdout'', Data = d, Time = t\<rparr>"

definition three_lines :: "Message list" where
  "three_lines = [line web1 ''starting'' 1, line api1 ''GET /'' 2, line web1 ''ready'' 3]"

definition docker_svc :: "nat Adapter" where
  "docker_svc = \<lparr>writer = 0, tagPrefix = ''docker'', tagSuffixLabel = ''svc''\<rparr>"

definition no_prefix :: "nat Adapter" where
  "no_prefix = \<lparr>writer = 0, tagPrefix = [], tagSuffixLabel = []\<rparr>"

text \<open>Two clients whose state counts the posts made: one accepts every post, one fails on the second post only.\<close>

definition accepts_all :: "nat post" where
  "accepts_all n tag t r = (None, Suc n)"

definition fails_second :: "nat post" where
  "fails_second n tag t r = (if n = 1 then Some (External ''write timeout'') else None, Suc n)"

definition fluentd_route :: Route where
  "fluentd_route = \<lparr>Adapter = ''fluentd'', Address = ''fluentd:24224'', Options = Map.empty\<rparr>"

fun refused :: "nat \<Rightarrow> error option" where
  "refused n = Some (External ''connection refused'')"

fun refused_once :: "nat \<Rightarrow> error option" where
  "refused_once 0 = Some (External ''connection refused'')"
| "refused_once (Suc n) = None"

fun refused_twice :: "nat \<Rightarrow> error option" where
  "refused_twice 0 = Some (External ''connection refused'')"
| "refused_twice (Suc 0) = Some (External ''connection refused'')"
| "refused_twice (Suc (Suc n)) = None"

text \<open>A host that finds the transport, splits the sample address and always builds a client, around a given dial script.\<close>

definition collector :: "(nat \<Rightarrow> error option) \<Rightarrow> unit collaborators" where
  "collector dial =
     \<lparr>Lookup = (\<lambda>route. True),
      Dial = dial,
      SplitHostPort = (\<lambda>address. (''fluentd'', ''24224'', None)),
      fluent_New = (\<lambda>config. Inr ())\<rparr>"

text \<open>Environments: nothing set, and single settings.\<close>

definition unset :: environ where
  "unset = Map.empty"

definition env_three_retries :: environ where
  "env_three_retries = [''CONNECTION_MAX_RETRIES'' \<mapsto> ''3'']"

definition env_no_retry :: environ where
  "env_no_retry = [''CONNECTION_MAX_RETRIES'' \<mapsto> ''0'']"

definition env_long_wait :: environ where
  "env_long_wait = [''CONNECTION_MAX_RETRIES'' \<mapsto> ''1'', ''CONNECTION_RETRY_WAIT'' \<mapsto> ''9223372037'']"

definition env_negative_retries :: environ where
  "env_negative_retries = [''CONNECTION_MAX_RETRIES'' \<mapsto> ''-1'']"

definition env_bad_ack :: environ where
  "env_bad_ack = [''FLUENTD_REQUEST_ACK'' \<mapsto> ''yes'']"

definition env_empty_prefix :: environ where
  "env_empty_prefix = [''TAG_PREFIX'' \<mapsto> []]"

definition env_empty_limit :: environ where
  "env_empty_limit = [''FLUENTD_BUFFER_LIMIT'' \<mapsto> []]"

section \<open>Facts about the model\<close>

subsection \<open>The blank-line pattern\<close>

lemma match_here_star_end: "match_here [StarClass p, EndText] b s = list_all p s"
  by (induction s arbitrary: b) auto

lemma match_from_begin_False: "match_from (BeginText # re) False s = False"
  by (induction s) auto

lemma MatchString_blank: "MatchString blank_pattern s = list_all posix_space s"
  by (cases s) (auto simp: MatchString_def blank_pattern_def match_here_star_end match_from_begin_False)

lemma MatchString_blank_set:
  "MatchString blank_pattern s \<longleftrightarrow> set s \<subseteq> {CHR 0x09, CHR 0x0A, CHR 0x0B, CHR 0x0C, CHR 0x0D, CHR '' ''}"
  by (auto simp: MatchString_blank list_all_iff posix_space_def)

subsection \<open>The loop of Stream\<close>

lemma postCalls_append: "postCalls (xs @ ys) = postCalls xs @ postCalls ys"
  by (induction xs rule: postCalls.induct) auto

lemma postCalls_debug: "postCalls (debug env v) = []"
  by (simp add: debug_def)

lemma postErrors_append: "postErrors (xs @ ys) = postErrors xs @ postErrors ys"
  by (induction xs rule: postErrors.induct) auto

lemma postErrors_debug:
  "postErrors (debug env [S a]) = []"
  "postErrors (debug env [S a, S b, S c]) = []"
  by (simp_all add: debug_def)

lemma iteration_blank:
  "MatchString blank_pattern (Data m) \<Longrightarrow>
   iteration post env ad w m =
     (w, debug env [S ''container: '', S (ID (Container m)), S (Name (Container m))]
         @ debug env [S ''Skipping empty message!''])"
  by (simp add: iteration_def)

lemma iteration_post:
  "\<not> MatchString blank_pattern (Data m) \<Longrightarrow>
   iteration post env ad w m =
     (snd (post w (set_tag ad m) (Time m) (construct_record m)),
      debug env [S ''container: '', S (ID (Container m)), S (Name (Container m))]
      @ PostCall (set_tag ad m) (Time m) (construct_record m)
      # (case fst (post w (set_tag ad m) (Time m) (construct_record m)) of
           None \<Rightarrow> []
         | Some err \<Rightarrow> [Println [S ''fluentd-adapter PostWithTime Error: '', E err]]))"
  by (simp add: iteration_def Let_def split: prod.splits option.splits)

lemma postCalls_iteration:
  "postCalls (snd (iteration post env ad w m)) =
     (if MatchString blank_pattern (Data m) then [] else [(set_tag ad m, Time m, construct_record m)])"
  by (auto simp: iteration_blank iteration_post postCalls_append postCalls_debug split: option.splits)

lemma range_loop_Cons:
  "range_loop post env ad w (m # ms) =
     (fst (range_loop post env ad (fst (iteration post env ad w m)) ms),
      snd (iteration post env ad w m) @ snd (range_loop post env ad (fst (iteration post env ad w m)) ms))"
  by (simp split: prod.splits)

declare range_loop.simps(2) [simp del]

lemma range_loop_append:
  "range_loop post env ad w (xs @ ys) =
     (fst (range_loop post env ad (fst (range_loop post env ad w xs)) ys),
      snd (range_loop post env ad w xs) @ snd (range_loop post env ad (fst (range_loop post env ad w xs)) ys))"
  by (induction xs arbitrary: w) (simp_all add: range_loop_Cons)

lemma postCalls_range_loop:
  "postCalls (snd (range_loop post env ad w msgs)) =
     map (\<lambda>m. (set_tag ad m, Time m, construct_record m))
         (filter (\<lambda>m. \<not> MatchString blank_pattern (Data m)) msgs)"
proof (induction msgs arbitrary: w)
  case Nil
  show ?case by simp
next
  case (Cons m ms)
  show ?case
    by (simp add: range_loop_Cons postCalls_append postCalls_iteration Cons.IH)
qed

lemma writer_range_loop:
  "fst (range_loop post env ad w msgs) =
     foldl (\<lambda>w (tag, t, r). snd (post w tag t r)) w (postCalls (snd (range_loop post env ad w msgs)))"
proof (induction msgs arbitrary: w)
  case Nil
  show ?case by simp
next
  case (Cons m ms)
  have step: "fst (iteration post env ad w m) =
      foldl (\<lambda>w (tag, t, r). snd (post w tag t r)) w (postCalls (snd (iteration post env ad w m)))"
    by (cases "MatchString blank_pattern (Data m)")
       (simp_all add: iteration_blank iteration_post postCalls_append postCalls_debug split: option.splits)
  show ?case
    by (simp add: range_loop_Cons postCalls_append Cons.IH [symmetric] step [symmetric])
qed

lemma Stream_fst: "fst (Stream post env ad msgs) = fst (range_loop post env ad (writer ad) msgs)"
  by (simp add: Stream_def split: prod.splits)

lemma Stream_postCalls:
  "postCalls (snd (Stream post env ad msgs)) = postCalls (snd (range_loop post env ad (writer ad) msgs))"
  by (simp add: Stream_def postCalls_append postCalls_debug split: prod.splits)

subsection \<open>The dial loop\<close>

lemma sint_wait:
  assumes "0 \<le> w" and "w \<le> 9223372036"
  shows "sint (word_of_int w * Second :: 64 word) = w * 1000000000"
proof -
  have "word_of_int w * Second = (word_of_int (w * 1000000000) :: 64 word)"
    by (simp add: Second_def)
  moreover have "sint (word_of_int (w * 1000000000) :: 64 word) = w * 1000000000"
    using assms by (subst sint_sbintrunc') (simp add: signed_take_bit_int_eq_self)
  ultimately show ?thesis by simp
qed

lemma slept_wait:
  assumes "0 \<le> w" and "w \<le> 9223372036"
  shows "slept_nanoseconds (word_of_int w * Second) = w * 1000000000"
  using assms by (simp add: slept_nanoseconds_def sint_wait)

lemma dial_loop_done: "mx < i \<Longrightarrow> dial_loop dial route mx w i = (None, [])"
  by (simp add: dial_loop.simps [of dial route mx w i])

lemma dial_loop_connected:
  "i \<le> mx \<Longrightarrow> dial (nat i) = None \<Longrightarrow>
   dial_loop dial route mx w i =
     (None, [DialCall (Address route) (Options route),
             Println [S (''Connectivity successful to fluentd @ '' @ Address route)]])"
  by (simp add: dial_loop.simps [of dial route mx w i])

lemma dial_loop_last:
  "dial (nat mx) = Some err \<Longrightarrow>
   dial_loop dial route mx w mx =
     (Some err, [DialCall (Address route) (Options route), Printf (''Error: %v'' @ [CHR 0x0A]) [E err]])"
  by (simp add: dial_loop.simps [of dial route mx w mx])

lemma dial_loop_retry:
  "i < mx \<Longrightarrow> dial (nat i) = Some err \<Longrightarrow>
   dial_loop dial route mx w i =
     (fst (dial_loop dial route mx w (i + 1)),
      [DialCall (Address route) (Options route),
       Printf (''Error: %v'' @ [CHR 0x0A]) [E err],
       Printf (''Retrying in %d seconds...'' @ [CHR 0x0A]) [I w],
       Sleep (word_of_int w * Second)] @ snd (dial_loop dial route mx w (i + 1)))"
  by (simp add: dial_loop.simps [of dial route mx w i] split: prod.splits)

lemma dialCalls_bound:
  "dialCalls (snd (dial_loop dial route mx w i)) \<le> nat (mx + 1 - i)"
proof (induction dial route mx w i rule: dial_loop.induct)
  case (1 dial route mx w i)
  consider "mx < i" | "i \<le> mx" "dial (nat i) = None"
    | err where "i = mx" "dial (nat i) = Some err"
    | err where "i < mx" "dial (nat i) = Some err"
    by (cases "dial (nat i)") force+
  then show ?case
  proof cases
    case 1
    then show ?thesis by (simp add: dial_loop_done)
  next
    case 2
    then show ?thesis by (simp add: dial_loop_connected)
  next
    case 3
    then show ?thesis by (simp add: dial_loop_last)
  next
    case 4
    with "1.IH" [of err] show ?thesis by (simp add: dial_loop_retry)
  qed
qed

text \<open>\<open>k\<close> refused attempts from \<open>i\<close> on, then a connection within the bound.\<close>

lemma dial_loop_success:
  "0 \<le> i \<Longrightarrow> i + int k \<le> mx \<Longrightarrow> (\<forall>j<k. dial (nat i + j) \<noteq> None) \<Longrightarrow> dial (nat i + k) = None \<Longrightarrow>
   fst (dial_loop dial route mx w i) = None \<and>
   probe_steps (snd (dial_loop dial route mx w i)) =
     concat (replicate k [DialCall (Address route) (Options route), Sleep (word_of_int w * Second)])
     @ [DialCall (Address route) (Options route)]"
proof (induction k arbitrary: i)
  case 0
  then show ?case by (simp add: dial_loop_connected)
next
  case (Suc k)
  from Suc.prems(3) have "dial (nat i) \<noteq> None" by force
  then obtain err where err: "dial (nat i) = Some err" by blast
  have lt: "i < mx" using Suc.prems(2) by simp
  have nat1: "nat (i + 1) = Suc (nat i)" using Suc.prems(1) by simp
  have "\<forall>j<k. dial (nat (i + 1) + j) \<noteq> None"
  proof (intro allI impI)
    fix j assume "j < k"
    then have "dial (nat i + Suc j) \<noteq> None" using Suc.prems(3) by blast
    then show "dial (nat (i + 1) + j) \<noteq> None" by (simp add: nat1)
  qed
  moreover have "dial (nat (i + 1) + k) = None" using Suc.prems(4) by (simp add: nat1)
  moreover have "0 \<le> i + 1" "i + 1 + int k \<le> mx" using Suc.prems(1,2) by simp_all
  ultimately have IH: "fst (dial_loop dial route mx w (i + 1)) = None \<and>
     probe_steps (snd (dial_loop dial route mx w (i + 1))) =
     concat (replicate k [DialCall (Address route) (Options route), Sleep (word_of_int w * Second)])
     @ [DialCall (Address route) (Options route)]"
    using Suc.IH [of "i + 1"] by blast
  show ?case using IH lt err by (simp add: dial_loop_retry [of i mx dial err route w])
qed

text \<open>Every attempt from \<open>i\<close> to the last one refused.\<close>

lemma dial_loop_exhausted:
  "0 \<le> i \<Longrightarrow> i + int k = mx \<Longrightarrow> (\<forall>j\<le>k. dial (nat i + j) \<noteq> None) \<Longrightarrow>
   fst (dial_loop dial route mx w i) = dial (nat mx) \<and>
   probe_steps (snd (dial_loop dial route mx w i)) =
     concat (replicate k [DialCall (Address route) (Options route), Sleep (word_of_int w * Second)])
     @ [DialCall (Address route) (Options route)]"
proof (induction k arbitrary: i)
  case 0
  then have i: "i = mx" by simp
  from 0 obtain err where "dial (nat mx) = Some err" by (auto simp: i)
  then show ?case by (simp add: i dial_loop_last)
next
  case (Suc k)
  from Suc.prems(3) have "dial (nat i) \<noteq> None" by force
  then obtain err where err: "dial (nat i) = Some err" by blast
  have lt: "i < mx" using Suc.prems(2) by simp
  have nat1: "nat (i + 1) = Suc (nat i)" using Suc.prems(1) by simp
  have "\<forall>j\<le>k. dial (nat (i + 1) + j) \<noteq> None"
  proof (intro allI impI)
    fix j assume "j \<le> k"
    then have "dial (nat i + Suc j) \<noteq> None" using Suc.prems(3) by (meson Suc_le_mono)
    then show "dial (nat (i + 1) + j) \<noteq> None" by (simp add: nat1)
  qed
  moreover have "0 \<le> i + 1" "i + 1 + int k = mx" using Suc.prems(1,2) by simp_all
  ultimately have IH: "fst (dial_loop dial route mx w (i + 1)) = dial (nat mx) \<and>
     probe_steps (snd (dial_loop dial route mx w (i + 1))) =
     concat (replicate k [DialCall (Address route) (Options route), Sleep (word_of_int w * Second)])
     @ [DialCall (Address route) (Options route)]"
    using Suc.IH [of "i + 1"] by blast
  show ?case using IH lt err by (simp add: dial_loop_retry [of i mx dial err route w])
qed

lemma dialCalls_probe_steps: "dialCalls (probe_steps evs) = dialCalls evs"
  by (induction evs rule: probe_steps.induct) auto

lemma sleeps_probe_steps: "sleeps (probe_steps evs) = sleeps evs"
  by (induction evs rule: probe_steps.induct) auto

lemma dialCalls_alternation:
  "dialCalls (concat (replicate k [DialCall a opts, Sleep d]) @ [DialCall a opts]) = Suc k"
  by (induction k) auto

lemma sleeps_alternation:
  "sleeps (concat (replicate k [DialCall a opts, Sleep d]) @ [DialCall a opts]) = replicate k d"
  by (induction k) auto

subsection \<open>NewAdapter\<close>

lemma NewAdapter_probe:
  "Lookup ext route \<Longrightarrow>
   Atoi (getenv env ''CONNECTION_MAX_RETRIES'' ''10'') = Inr mx \<Longrightarrow>
   Atoi (getenv env ''CONNECTION_RETRY_WAIT'' ''1'') = Inr w \<Longrightarrow>
   NewAdapter ext env route =
     (case fst (dial_loop (Dial ext) route mx w 0) of
        Some err \<Rightarrow> Inl err
      | None \<Rightarrow> construct ext env route,
      snd (dial_loop (Dial ext) route mx w 0))"
  by (simp add: NewAdapter_def split: prod.splits option.splits)

lemma getenv_set: "env key = Some v \<Longrightarrow> v \<noteq> [] \<Longrightarrow> getenv env key fallback = v"
  by (simp add: getenv_def os_Getenv_def)

lemma getenv_empty_is_unset: "getenv (env(key \<mapsto> [])) = getenv (env(key := None))"
  by (rule ext, rule ext) (simp add: getenv_def os_Getenv_def)

lemma NewAdapter_construct_error:
  "isl (construct ext env route) \<Longrightarrow> isl (fst (NewAdapter ext env route))"
  by (auto simp: NewAdapter_def split: sum.splits prod.splits option.splits)

lemma construct_error_FLUENTD_BUFFER_LIMIT:
  "isl (Atoi (getenv env ''FLUENTD_BUFFER_LIMIT'' (Itoa defaultBufferLimit))) \<Longrightarrow> isl (construct ext env route)"
  by (auto simp: construct_def split: sum.splits prod.splits)

lemma construct_error_FLUENTD_RETRY_WAIT:
  "isl (Atoi (getenv env ''FLUENTD_RETRY_WAIT'' (Itoa defaultRetryWait))) \<Longrightarrow> isl (construct ext env route)"
  by (auto simp: construct_def split: sum.splits prod.splits)

lemma construct_error_FLUENTD_MAX_RETRIES:
  "isl (Atoi (getenv env ''FLUENTD_MAX_RETRIES'' (Itoa defaultMaxRetries))) \<Longrightarrow> isl (construct ext env route)"
  by (auto simp: construct_def split: sum.splits prod.splits)

lemma construct_error_FLUENTD_ASYNC_CONNECT:
  "isl (ParseBool (getenv env ''FLUENTD_ASYNC_CONNECT'' ''false'')) \<Longrightarrow> isl (construct ext env route)"
  by (auto simp: construct_def split: sum.splits prod.splits)

lemma construct_error_FLUENTD_SUBSECOND_PRECISION:
  "isl (ParseBool (getenv env ''FLUENTD_SUBSECOND_PRECISION'' ''false'')) \<Longrightarrow> isl (construct ext env route)"
  by (auto simp: construct_def split: sum.splits prod.splits)

lemma construct_error_FLUENTD_REQUEST_ACK:
  "isl (ParseBool (getenv env ''FLUENTD_REQUEST_ACK'' ''false'')) \<Longrightarrow> isl (construct ext env route)"
  by (auto simp: construct_def split: sum.splits prod.splits)

lemma construct_error_FLUENTD_WRITE_TIMEOUT:
  "isl (Atoi (getenv env ''FLUENTD_WRITE_TIMEOUT'' (Itoa defaultWriteTimeout))) \<Longrightarrow> isl (construct ext env route)"
  by (auto simp: construct_def split: sum.splits prod.splits)

lemma NewAdapter_error_CONNECTION_MAX_RETRIES:
  "isl (Atoi (getenv env ''CONNECTION_MAX_RETRIES'' ''10'')) \<Longrightarrow> isl (fst (NewAdapter ext env route))"
  by (auto simp: NewAdapter_def split: sum.splits prod.splits option.splits)

lemma NewAdapter_error_CONNECTION_RETRY_WAIT:
  "isl (Atoi (getenv env ''CONNECTION_RETRY_WAIT'' ''1'')) \<Longrightarrow> isl (fst (NewAdapter ext env route))"
  by (auto simp: NewAdapter_def split: sum.splits prod.splits option.splits)

lemma NewAdapter_Inr:
  "fst (NewAdapter ext env route) = Inr ad \<Longrightarrow> construct ext env route = Inr ad"
  by (auto simp: NewAdapter_def split: if_splits sum.splits prod.splits option.splits)

lemma construct_tagPrefix:
  "construct ext env route = Inr ad \<Longrightarrow> tagPrefix ad = getenv env ''TAG_PREFIX'' ''docker''"
  by (auto simp: construct_def split: sum.splits prod.splits)

lemma getenv_nonempty: "fallback \<noteq> [] \<Longrightarrow> getenv env key fallback \<noteq> []"
  by (simp add: getenv_def Let_def)

section \<open>The claims about Stream\<close>

text \<open>
  Claim C2. A message whose data is empty or made only of white space (tab, line feed,
  vertical tab, form feed, carriage return, space: the class of the pattern) is dropped:
  the client is not called and its state is unchanged, and the stream behaves as if the
  message were not in it. A message with any other byte in its data is posted once.
\<close>

theorem blank_message_is_dropped:
  "(set (Data m) \<subseteq> {CHR 0x09, CHR 0x0A, CHR 0x0B, CHR 0x0C, CHR 0x0D, CHR '' ''} \<longrightarrow>
      fst (iteration post env ad w m) = w \<and>
      postCalls (snd (iteration post env ad w m)) = [] \<and>
      fst (Stream post env ad (before @ m # after)) = fst (Stream post env ad (before @ after)) \<and>
      postCalls (snd (Stream post env ad (before @ m # after))) =
        postCalls (snd (Stream post env ad (before @ after))))
   \<and> (\<not> set (Data m) \<subseteq> {CHR 0x09, CHR 0x0A, CHR 0x0B, CHR 0x0C, CHR 0x0D, CHR '' ''} \<longrightarrow>
      fst (iteration post env ad w m) = snd (post w (set_tag ad m) (Time m) (construct_record m)) \<and>
      postCalls (snd (iteration post env ad w m)) = [(set_tag ad m, Time m, construct_record m)])"
proof (intro conjI impI)
  assume "set (Data m) \<subseteq> {CHR 0x09, CHR 0x0A, CHR 0x0B, CHR 0x0C, CHR 0x0D, CHR '' ''}"
  then have blank: "MatchString blank_pattern (Data m)"
    by (simp only: MatchString_blank_set)
  show "fst (iteration post env ad w m) = w"
    by (simp add: iteration_blank [OF blank])
  show "postCalls (snd (iteration post env ad w m)) = []"
    by (simp add: postCalls_iteration blank)
  show "fst (Stream post env ad (before @ m # after)) = fst (Stream post env ad (before @ after))"
    by (simp add: Stream_fst range_loop_append [of _ _ _ _ before] range_loop_Cons iteration_blank [OF blank])
  show "postCalls (snd (Stream post env ad (before @ m # after))) =
        postCalls (snd (Stream post env ad (before @ after)))"
    by (simp add: Stream_postCalls postCalls_range_loop blank)
next
  assume "\<not> set (Data m) \<subseteq> {CHR 0x09, CHR 0x0A, CHR 0x0B, CHR 0x0C, CHR 0x0D, CHR '' ''}"
  then have nonblank: "\<not> MatchString blank_pattern (Data m)"
    by (simp only: MatchString_blank_set not_False_eq_True)
  show "fst (iteration post env ad w m) = snd (post w (set_tag ad m) (Time m) (construct_record m))"
    by (simp add: iteration_post [OF nonblank])
  show "postCalls (snd (iteration post env ad w m)) = [(set_tag ad m, Time m, construct_record m)]"
    by (simp add: postCalls_iteration nonblank)
qed

theorem blank_message_is_dropped_witness:
  "fst (Stream accepts_all unset docker_svc
          ([line web1 ''starting'' 1] @ line web1 [CHR '' '', CHR 0x09, CHR 0x0A] 2 # [line web1 ''ready'' 3])) =
     fst (Stream accepts_all unset docker_svc ([line web1 ''starting'' 1] @ [line web1 ''ready'' 3]))
   \<and> postCalls (snd (iteration accepts_all unset docker_svc 0 (line web1 [CHR '' '', CHR 0x09, CHR 0x0A] 2))) = []
   \<and> postCalls (snd (iteration accepts_all unset docker_svc 0 (line web1 '' x'' 2))) =
       [(''docker.web1-host-a'', 2,
         [''log'' \<mapsto> '' x'', ''container_id'' \<mapsto> ''c0ffee'', ''container_name'' \<mapsto> ''web1'', ''source'' \<mapsto> ''stdout''])]"
  using blank_message_is_dropped [of "line web1 [CHR '' '', CHR 0x09, CHR 0x0A] 2" accepts_all unset docker_svc 0
          "[line web1 ''starting'' 1]" "[line web1 ''ready'' 3]"]
        blank_message_is_dropped [of "line web1 '' x'' 2" accepts_all unset docker_svc 0 "[]" "[]"]
  by (simp add: line_def web1_def docker_svc_def set_tag_def construct_record_def index_def)

text \<open>
  Claim C3. For every stream, the records handed to the client correspond one to one, in
  order, to the messages that are not dropped, and each record has exactly the keys
  \<open>log\<close>, \<open>container_id\<close>, \<open>container_name\<close> and \<open>source\<close>, holding the data, the
  container ID, the container name and the source of its message unchanged.
\<close>

theorem record_has_exactly_four_fields:
  "list_all2
     (\<lambda>(tag, t, r) m.
        dom r = {''log'', ''container_id'', ''container_name'', ''source''} \<and>
        r ''log'' = Some (Data m) \<and>
        r ''container_id'' = Some (ID (Container m)) \<and>
        r ''container_name'' = Some (Name (Container m)) \<and>
        r ''source'' = Some (Source m))
     (postCalls (snd (Stream post env ad logstream)))
     (filter (\<lambda>m. \<not> MatchString blank_pattern (Data m)) logstream)"
  by (auto simp: Stream_postCalls postCalls_range_loop list_all2_map1 list_all2_same construct_record_def)

theorem record_has_exactly_four_fields_witness:
  "list_all2
     (\<lambda>(tag, t, r) m.
        dom r = {''log'', ''container_id'', ''container_name'', ''source''} \<and>
        r ''log'' = Some (Data m) \<and>
        r ''container_id'' = Some (ID (Container m)) \<and>
        r ''container_name'' = Some (Name (Container m)) \<and>
        r ''source'' = Some (Source m))
     (postCalls (snd (Stream accepts_all unset docker_svc three_lines)))
     [line web1 ''starting'' 1, line api1 ''GET /'' 2, line web1 ''ready'' 3]"
  using record_has_exactly_four_fields [of accepts_all unset docker_svc three_lines]
  by (simp add: three_lines_def MatchString_blank posix_space_def line_def)

text \<open>
  Claim C4. With a non-empty tag prefix, the tags handed to the client are, for the
  messages that are not dropped and in their order, the prefix, a dot and the suffix: the
  value of the container label named by the suffix label key or, when the label is absent
  or empty, the container name, a dash and the container hostname.
\<close>

theorem routing_tag_with_prefix:
  assumes "tagPrefix ad \<noteq> []"
  shows "map fst (postCalls (snd (Stream post env ad logstream))) =
         map (\<lambda>m. tagPrefix ad @ ''.'' @
                   (case Labels (Config (Container m)) (tagSuffixLabel ad) of
                      None \<Rightarrow> Name (Container m) @ ''-'' @ Hostname (Config (Container m))
                    | Some v \<Rightarrow> if v = [] then Name (Container m) @ ''-'' @ Hostname (Config (Container m))
                                else v))
             (filter (\<lambda>m. \<not> MatchString blank_pattern (Data m)) logstream)"
  using assms
  by (simp add: Stream_postCalls postCalls_range_loop set_tag_def index_def comp_def
           split: option.splits)

theorem routing_tag_with_prefix_witness:
  "tagPrefix docker_svc \<noteq> [] \<and>
   map fst (postCalls (snd (Stream accepts_all unset docker_svc [line api1 ''GET /'' 1, line web1 ''ready'' 2]))) =
     [''docker.api'', ''docker.web1-host-a'']"
  using routing_tag_with_prefix [of docker_svc accepts_all unset "[line api1 ''GET /'' 1, line web1 ''ready'' 2]"]
  by (simp add: docker_svc_def line_def api1_def web1_def MatchString_blank posix_space_def)

text \<open>
  Claim C8. Stream is a total function of the finite list of messages received before
  the channel was closed, and has no error result. Its calls of the client are exactly
  one per message that is not dropped, in the order of arrival, with the tag, time and
  record of that message, and the final state of the client is the one these calls
  produce one after the other: nothing else reaches the client.
\<close>

theorem stream_posts_each_accepted_message_once:
  "postCalls (snd (Stream post env ad logstream)) =
     map (\<lambda>m. (set_tag ad m, Time m, construct_record m))
         (filter (\<lambda>m. \<not> MatchString blank_pattern (Data m)) logstream)
   \<and> fst (Stream post env ad logstream) =
     foldl (\<lambda>w (tag, t, r). snd (post w tag t r)) (writer ad) (postCalls (snd (Stream post env ad logstream)))"
proof
  show "postCalls (snd (Stream post env ad logstream)) =
     map (\<lambda>m. (set_tag ad m, Time m, construct_record m))
         (filter (\<lambda>m. \<not> MatchString blank_pattern (Data m)) logstream)"
    by (simp add: Stream_postCalls postCalls_range_loop)
  show "fst (Stream post env ad logstream) =
     foldl (\<lambda>w (tag, t, r). snd (post w tag t r)) (writer ad) (postCalls (snd (Stream post env ad logstream)))"
    unfolding Stream_fst Stream_postCalls by (rule writer_range_loop)
qed

theorem stream_posts_each_accepted_message_once_witness:
  "postCalls (snd (Stream accepts_all unset docker_svc [line web1 ''starting'' 1, line web1 [CHR 0x0A] 2, line api1 ''GET /'' 3])) =
     [(''docker.web1-host-a'', 1,
       [''log'' \<mapsto> ''starting'', ''container_id'' \<mapsto> ''c0ffee'', ''container_name'' \<mapsto> ''web1'', ''source'' \<mapsto> ''stdout'']),
      (''docker.api'', 3,
       [''log'' \<mapsto> ''GET /'', ''container_id'' \<mapsto> ''abc123'', ''container_name'' \<mapsto> ''api1'', ''source'' \<mapsto> ''stdout''])]
   \<and> fst (Stream accepts_all unset docker_svc [line web1 ''starting'' 1, line web1 [CHR 0x0A] 2, line api1 ''GET /'' 3]) = 2"
  using stream_posts_each_accepted_message_once
          [of accepts_all unset docker_svc "[line web1 ''starting'' 1, line web1 [CHR 0x0A] 2, line api1 ''GET /'' 3]"]
  by (simp add: MatchString_blank posix_space_def line_def web1_def api1_def docker_svc_def
        set_tag_def construct_record_def index_def accepts_all_def)

text \<open>
  Claim C1, as it holds. When the post of a message fails, the loop logs the error and
  goes on with the rest of the stream from the state in which the failed post left the
  client. For three messages that are not dropped and a client that fails on the second
  only, the client is called three times, once per message in order, the error of the
  second call is the only one logged, and the loop ends in the state the third call
  left: nothing is retried and nothing is skipped.
\<close>

theorem post_failure_does_not_stop_the_loop:
  "(\<not> MatchString blank_pattern (Data m) \<and>
    post w (set_tag ad m) (Time m) (construct_record m) = (Some err, w') \<longrightarrow>
      range_loop post env ad w (m # rest) =
        (fst (range_loop post env ad w' rest),
         debug env [S ''container: '', S (ID (Container m)), S (Name (Container m))]
         @ [PostCall (set_tag ad m) (Time m) (construct_record m),
            Println [S ''fluentd-adapter PostWithTime Error: '', E err]]
         @ snd (range_loop post env ad w' rest)))
   \<and> (\<not> MatchString blank_pattern (Data m1) \<and>
      \<not> MatchString blank_pattern (Data m2) \<and>
      \<not> MatchString blank_pattern (Data m3) \<and>
      post (writer ad) (set_tag ad m1) (Time m1) (construct_record m1) = (None, w1) \<and>
      post w1 (set_tag ad m2) (Time m2) (construct_record m2) = (Some err, w2) \<and>
      post w2 (set_tag ad m3) (Time m3) (construct_record m3) = (None, w3) \<longrightarrow>
        fst (Stream post env ad [m1, m2, m3]) = w3 \<and>
        postCalls (snd (Stream post env ad [m1, m2, m3])) =
          [(set_tag ad m1, Time m1, construct_record m1),
           (set_tag ad m2, Time m2, construct_record m2),
           (set_tag ad m3, Time m3, construct_record m3)] \<and>
        postErrors (snd (Stream post env ad [m1, m2, m3])) = [err])"
proof (intro conjI impI)
  assume "\<not> MatchString blank_pattern (Data m) \<and>
    post w (set_tag ad m) (Time m) (construct_record m) = (Some err, w')"
  then show "range_loop post env ad w (m # rest) =
        (fst (range_loop post env ad w' rest),
         debug env [S ''container: '', S (ID (Container m)), S (Name (Container m))]
         @ [PostCall (set_tag ad m) (Time m) (construct_record m),
            Println [S ''fluentd-adapter PostWithTime Error: '', E err]]
         @ snd (range_loop post env ad w' rest))"
    by (simp add: range_loop_Cons iteration_post)
next
  assume a: "\<not> MatchString blank_pattern (Data m1) \<and>
      \<not> MatchString blank_pattern (Data m2) \<and>
      \<not> MatchString blank_pattern (Data m3) \<and>
      post (writer ad) (set_tag ad m1) (Time m1) (construct_record m1) = (None, w1) \<and>
      post w1 (set_tag ad m2) (Time m2) (construct_record m2) = (Some err, w2) \<and>
      post w2 (set_tag ad m3) (Time m3) (construct_record m3) = (None, w3)"
  then show "fst (Stream post env ad [m1, m2, m3]) = w3"
    by (simp add: Stream_fst range_loop_Cons iteration_post)
  from a show "postCalls (snd (Stream post env ad [m1, m2, m3])) =
          [(set_tag ad m1, Time m1, construct_record m1),
           (set_tag ad m2, Time m2, construct_record m2),
           (set_tag ad m3, Time m3, construct_record m3)]"
    by (simp add: Stream_postCalls postCalls_range_loop)
  from a show "postErrors (snd (Stream post env ad [m1, m2, m3])) = [err]"
    by (simp add: Stream_def range_loop_Cons iteration_post postErrors_append postErrors_debug)
qed

theorem post_failure_does_not_stop_the_loop_witness:
  "Stream fails_second unset docker_svc three_lines =
     (3, [PostCall ''docker.web1-host-a'' 1
            [''log'' \<mapsto> ''starting'', ''container_id'' \<mapsto> ''c0ffee'', ''container_name'' \<mapsto> ''web1'', ''source'' \<mapsto> ''stdout''],
          PostCall ''docker.api'' 2
            [''log'' \<mapsto> ''GET /'', ''container_id'' \<mapsto> ''abc123'', ''container_name'' \<mapsto> ''api1'', ''source'' \<mapsto> ''stdout''],
          Println [S ''fluentd-adapter PostWithTime Error: '', E (External ''write timeout'')],
          PostCall ''docker.web1-host-a'' 3
            [''log'' \<mapsto> ''ready'', ''container_id'' \<mapsto> ''c0ffee'', ''container_name'' \<mapsto> ''web1'', ''source'' \<mapsto> ''stdout'']])
   \<and> length (postCalls (snd (Stream fails_second unset docker_svc three_lines))) = 3
   \<and> postErrors (snd (Stream fails_second unset docker_svc three_lines)) = [External ''write timeout'']"
proof -
  have run: "Stream fails_second unset docker_svc three_lines =
     (3, [PostCall ''docker.web1-host-a'' 1
            [''log'' \<mapsto> ''starting'', ''container_id'' \<mapsto> ''c0ffee'', ''container_name'' \<mapsto> ''web1'', ''source'' \<mapsto> ''stdout''],
          PostCall ''docker.api'' 2
            [''log'' \<mapsto> ''GET /'', ''container_id'' \<mapsto> ''abc123'', ''container_name'' \<mapsto> ''api1'', ''source'' \<mapsto> ''stdout''],
          Println [S ''fluentd-adapter PostWithTime Error: '', E (External ''write timeout'')],
          PostCall ''docker.web1-host-a'' 3
            [''log'' \<mapsto> ''ready'', ''container_id'' \<mapsto> ''c0ffee'', ''container_name'' \<mapsto> ''web1'', ''source'' \<mapsto> ''stdout'']])"
    by (simp add: Stream_def range_loop_Cons iteration_post three_lines_def MatchString_blank posix_space_def
          line_def web1_def api1_def docker_svc_def set_tag_def construct_record_def index_def
          fails_second_def debug_def os_Getenv_def unset_def)
  have scenario: "\<not> MatchString blank_pattern (Data (line web1 ''starting'' 1)) \<and>
      \<not> MatchString blank_pattern (Data (line api1 ''GET /'' 2)) \<and>
      \<not> MatchString blank_pattern (Data (line web1 ''ready'' 3)) \<and>
      fails_second (writer docker_svc) (set_tag docker_svc (line web1 ''starting'' 1))
        (Time (line web1 ''starting'' 1)) (construct_record (line web1 ''starting'' 1)) = (None, 1) \<and>
      fails_second 1 (set_tag docker_svc (line api1 ''GET /'' 2))
        (Time (line api1 ''GET /'' 2)) (construct_record (line api1 ''GET /'' 2)) =
        (Some (External ''write timeout''), 2) \<and>
      fails_second 2 (set_tag docker_svc (line web1 ''ready'' 3))
        (Time (line web1 ''ready'' 3)) (construct_record (line web1 ''ready'' 3)) = (None, 3)"
    by (simp add: MatchString_blank posix_space_def line_def fails_second_def docker_svc_def)
  from post_failure_does_not_stop_the_loop
         [where ?m1.0 = "line web1 ''starting'' 1" and ?m2.0 = "line api1 ''GET /'' 2"
            and ?m3.0 = "line web1 ''ready'' 3" and post = fails_second and ad = docker_svc
            and ?w1.0 = 1 and err = "External ''write timeout''" and ?w2.0 = 2 and ?w3.0 = 3
            and env = unset, THEN conjunct2, THEN mp, OF scenario]
  have "length (postCalls (snd (Stream fails_second unset docker_svc three_lines))) = 3
      \<and> postErrors (snd (Stream fails_second unset docker_svc three_lines)) = [External ''write timeout'']"
    by (simp add: three_lines_def)
  with run show ?thesis by simp
qed

text \<open>
  Claim C1 as stated, refuted: with three messages that are not dropped and a client that
  fails on the second post only, the client is called three times, not twice.
\<close>

theorem three_posts_not_two:
  "length (postCalls (snd (Stream fails_second unset docker_svc three_lines))) = 3
   \<and> length (postCalls (snd (Stream fails_second unset docker_svc three_lines))) \<noteq> 2"
  by (simp add: Stream_postCalls postCalls_range_loop three_lines_def MatchString_blank posix_space_def line_def)

section \<open>The claims about NewAdapter\<close>

text \<open>
  Claim C6, as it holds. Let the transport be found and the two connection settings parse
  to \<open>maxRetries \<ge> 0\<close> and to a wait of \<open>0 \<le> retryWait \<le> 9223372036\<close> seconds (the waits
  whose nanoseconds fit the 64-bit duration). Then NewAdapter dials at most
  \<open>maxRetries + 1\<close> times. If the first connection comes at attempt \<open>k \<le> maxRetries\<close>
  (counted from 0), the probe is a dial and a sleep of \<open>retryWait\<close> seconds \<open>k\<close> times over
  and then one last dial, and NewAdapter goes on to build the client. If every attempt
  up to \<open>maxRetries\<close> is refused, the probe has the same shape with \<open>k = maxRetries\<close>: no
  sleep follows the last dial, and NewAdapter returns the last dial's error.
\<close>

theorem dial_probe_retries_within_bound:
  assumes "Lookup ext route"
    and "Atoi (getenv env ''CONNECTION_MAX_RETRIES'' ''10'') = Inr maxRetries"
    and "Atoi (getenv env ''CONNECTION_RETRY_WAIT'' ''1'') = Inr retryWait"
    and "0 \<le> maxRetries" and "0 \<le> retryWait" and "retryWait \<le> 9223372036"
  shows "dialCalls (snd (NewAdapter ext env route)) \<le> nat maxRetries + 1 \<and>
    (\<forall>k. int k \<le> maxRetries \<and> (\<forall>j<k. Dial ext j \<noteq> None) \<and> Dial ext k = None \<longrightarrow>
       fst (NewAdapter ext env route) = construct ext env route \<and>
       probe_steps (snd (NewAdapter ext env route)) =
         concat (replicate k [DialCall (Address route) (Options route), Sleep (word_of_int retryWait * Second)])
         @ [DialCall (Address route) (Options route)] \<and>
       dialCalls (snd (NewAdapter ext env route)) = k + 1 \<and>
       map slept_nanoseconds (sleeps (snd (NewAdapter ext env route))) = replicate k (retryWait * 1000000000)) \<and>
    ((\<forall>j\<le>nat maxRetries. Dial ext j \<noteq> None) \<longrightarrow>
       (case Dial ext (nat maxRetries) of
          Some err \<Rightarrow> fst (NewAdapter ext env route) = Inl err
        | None \<Rightarrow> False) \<and>
       probe_steps (snd (NewAdapter ext env route)) =
         concat (replicate (nat maxRetries)
                   [DialCall (Address route) (Options route), Sleep (word_of_int retryWait * Second)])
         @ [DialCall (Address route) (Options route)] \<and>
       dialCalls (snd (NewAdapter ext env route)) = nat maxRetries + 1 \<and>
       map slept_nanoseconds (sleeps (snd (NewAdapter ext env route))) =
         replicate (nat maxRetries) (retryWait * 1000000000))"
proof -
  let ?run = "dial_loop (Dial ext) route maxRetries retryWait 0"
  let ?shape = "\<lambda>k. concat (replicate k [DialCall (Address route) (Options route),
                                           Sleep (word_of_int retryWait * Second)])
                     @ [DialCall (Address route) (Options route)]"
  have new: "NewAdapter ext env route =
      (case fst ?run of Some err \<Rightarrow> Inl err | None \<Rightarrow> construct ext env route, snd ?run)"
    using assms(1-3) by (rule NewAdapter_probe)
  have slept: "slept_nanoseconds (word_of_int retryWait * Second) = retryWait * 1000000000"
    using assms(5,6) by (rule slept_wait)
  have counts: "dialCalls (snd ?run) = k + 1 \<and>
      map slept_nanoseconds (sleeps (snd ?run)) = replicate k (retryWait * 1000000000)"
    if "probe_steps (snd ?run) = ?shape k" for k
  proof -
    have "dialCalls (snd ?run) = dialCalls (?shape k)"
      using that dialCalls_probe_steps [of "snd ?run"] by simp
    moreover have "sleeps (snd ?run) = sleeps (?shape k)"
      using that sleeps_probe_steps [of "snd ?run"] by simp
    ultimately show ?thesis
      by (simp only: dialCalls_alternation sleeps_alternation map_replicate slept) simp
  qed
  have bound: "dialCalls (snd (NewAdapter ext env route)) \<le> nat maxRetries + 1"
    using dialCalls_bound [of "Dial ext" route maxRetries retryWait 0] assms(4)
    by (simp add: new nat_add_distrib)
  have success: "fst (NewAdapter ext env route) = construct ext env route \<and>
       probe_steps (snd (NewAdapter ext env route)) = ?shape k \<and>
       dialCalls (snd (NewAdapter ext env route)) = k + 1 \<and>
       map slept_nanoseconds (sleeps (snd (NewAdapter ext env route))) = replicate k (retryWait * 1000000000)"
    if "int k \<le> maxRetries \<and> (\<forall>j<k. Dial ext j \<noteq> None) \<and> Dial ext k = None" for k
  proof -
    have run: "fst ?run = None \<and> probe_steps (snd ?run) = ?shape k"
      using dial_loop_success [of 0 k maxRetries "Dial ext" route retryWait] that by simp
    with counts [of k] show ?thesis by (simp add: new)
  qed
  have exhausted: "(case Dial ext (nat maxRetries) of
          Some err \<Rightarrow> fst (NewAdapter ext env route) = Inl err
        | None \<Rightarrow> False) \<and>
       probe_steps (snd (NewAdapter ext env route)) = ?shape (nat maxRetries) \<and>
       dialCalls (snd (NewAdapter ext env route)) = nat maxRetries + 1 \<and>
       map slept_nanoseconds (sleeps (snd (NewAdapter ext env route))) =
         replicate (nat maxRetries) (retryWait * 1000000000)"
    if all: "\<forall>j\<le>nat maxRetries. Dial ext j \<noteq> None"
  proof -
    have run: "fst ?run = Dial ext (nat maxRetries) \<and> probe_steps (snd ?run) = ?shape (nat maxRetries)"
      using dial_loop_exhausted [of 0 "nat maxRetries" maxRetries "Dial ext" route retryWait] all assms(4)
      by simp
    from all obtain err where "Dial ext (nat maxRetries) = Some err" by auto
    with run counts [of "nat maxRetries"] show ?thesis by (simp add: new)
  qed
  from bound success exhausted show ?thesis by blast
qed

theorem dial_probe_retries_within_bound_witness:
  "dialCalls (snd (NewAdapter (collector refused_twice) env_three_retries fluentd_route)) = 3 \<and>
   map slept_nanoseconds (sleeps (snd (NewAdapter (collector refused_twice) env_three_retries fluentd_route))) =
     [1000000000, 1000000000] \<and>
   fst (NewAdapter (collector refused_twice) env_three_retries fluentd_route) =
     construct (collector refused_twice) env_three_retries fluentd_route \<and>
   dialCalls (snd (NewAdapter (collector refused) env_no_retry fluentd_route)) = 1 \<and>
   sleeps (snd (NewAdapter (collector refused) env_no_retry fluentd_route)) = [] \<and>
   fst (NewAdapter (collector refused) env_no_retry fluentd_route) = Inl (External ''connection refused'')"
proof -
  have three: "Atoi (getenv env_three_retries ''CONNECTION_MAX_RETRIES'' ''10'') = Inr 3"
    by (simp add: env_three_retries_def getenv_def os_Getenv_def Atoi_def is_digit_def)
  have wait3: "Atoi (getenv env_three_retries ''CONNECTION_RETRY_WAIT'' ''1'') = Inr 1"
    by (simp add: env_three_retries_def getenv_def os_Getenv_def Atoi_def is_digit_def)
  have zero: "Atoi (getenv env_no_retry ''CONNECTION_MAX_RETRIES'' ''10'') = Inr 0"
    by (simp add: env_no_retry_def getenv_def os_Getenv_def Atoi_def is_digit_def)
  have wait0: "Atoi (getenv env_no_retry ''CONNECTION_RETRY_WAIT'' ''1'') = Inr 1"
    by (simp add: env_no_retry_def getenv_def os_Getenv_def Atoi_def is_digit_def)
  have found: "Lookup (collector dial) fluentd_route" for dial
    by (simp add: collector_def)
  have twice: "int 2 \<le> 3 \<and> (\<forall>j<2. Dial (collector refused_twice) j \<noteq> None) \<and>
      Dial (collector refused_twice) 2 = None"
    by (simp add: collector_def numeral_2_eq_2 less_Suc_eq)
  have always: "\<forall>j\<le>nat 0. Dial (collector refused) j \<noteq> None"
    by (simp add: collector_def)
  have last: "Dial (collector refused) (nat 0) = Some (External ''connection refused'')"
    by (simp add: collector_def)
  note retried = dial_probe_retries_within_bound [OF found [of refused_twice] three wait3]
  note fatal = dial_probe_retries_within_bound [OF found [of refused] zero wait0]
  have a: "fst (NewAdapter (collector refused_twice) env_three_retries fluentd_route) =
             construct (collector refused_twice) env_three_retries fluentd_route \<and>
           dialCalls (snd (NewAdapter (collector refused_twice) env_three_retries fluentd_route)) = 2 + 1 \<and>
           map slept_nanoseconds (sleeps (snd (NewAdapter (collector refused_twice) env_three_retries fluentd_route))) =
             replicate 2 (1 * 1000000000)"
    using retried [THEN conjunct2, THEN conjunct1, THEN spec, of 2, THEN mp, OF _ _ _ twice]
    by simp
  have b: "(case Dial (collector refused) (nat 0) of
              Some err \<Rightarrow> fst (NewAdapter (collector refused) env_no_retry fluentd_route) = Inl err
            | None \<Rightarrow> False) \<and>
           dialCalls (snd (NewAdapter (collector refused) env_no_retry fluentd_route)) = nat 0 + 1 \<and>
           map slept_nanoseconds (sleeps (snd (NewAdapter (collector refused) env_no_retry fluentd_route))) =
             replicate (nat 0) (1 * 1000000000)"
    using fatal [THEN conjunct2, THEN conjunct2, THEN mp, OF _ _ _ always]
    by simp
  from a b last show ?thesis by (simp add: numeral_2_eq_2)
qed

text \<open>
  Claim C6 as stated, refuted: a wait of 9223372037 seconds is accepted, but its
  nanoseconds wrap around to a negative duration, and the sleep after the refused first
  attempt returns at once.
\<close>

theorem overlong_wait_does_not_sleep:
  "Atoi (getenv env_long_wait ''CONNECTION_RETRY_WAIT'' ''1'') = Inr 9223372037 \<and>
   map sint (sleeps (snd (NewAdapter (collector refused_once) env_long_wait fluentd_route))) =
     [- 9223372036709551616] \<and>
   map slept_nanoseconds (sleeps (snd (NewAdapter (collector refused_once) env_long_wait fluentd_route))) = [0]"
  by (simp add: NewAdapter_def env_long_wait_def getenv_def os_Getenv_def Atoi_def is_digit_def
        collector_def dial_loop.simps Second_def slept_nanoseconds_def split: prod.splits)

text \<open>
  Claim C7, as it holds. If one of the six integer settings is set to a non-empty value
  that \<open>Atoi\<close> rejects, or one of the three boolean settings to a non-empty value that
  \<open>ParseBool\<close> rejects, NewAdapter returns an error and no adapter, whatever the
  collaborators do. A setting whose value is the empty string is read as not set.
\<close>

theorem malformed_setting_is_fatal:
  assumes "(\<exists>key v. key \<in> set [''CONNECTION_MAX_RETRIES'', ''CONNECTION_RETRY_WAIT'', ''FLUENTD_BUFFER_LIMIT'',
                                  ''FLUENTD_RETRY_WAIT'', ''FLUENTD_MAX_RETRIES'', ''FLUENTD_WRITE_TIMEOUT''] \<and>
                     env key = Some v \<and> v \<noteq> [] \<and> isl (Atoi v))
         \<or> (\<exists>key v. key \<in> set [''FLUENTD_ASYNC_CONNECT'', ''FLUENTD_SUBSECOND_PRECISION'', ''FLUENTD_REQUEST_ACK''] \<and>
                     env key = Some v \<and> v \<noteq> [] \<and> isl (ParseBool v))"
  shows "isl (fst (NewAdapter ext env route))"
  using assms
proof (elim disjE exE conjE)
  fix key v
  assume key: "key \<in> set [''CONNECTION_MAX_RETRIES'', ''CONNECTION_RETRY_WAIT'', ''FLUENTD_BUFFER_LIMIT'',
                           ''FLUENTD_RETRY_WAIT'', ''FLUENTD_MAX_RETRIES'', ''FLUENTD_WRITE_TIMEOUT'']"
    and v: "env key = Some v" "v \<noteq> []" and bad: "isl (Atoi v)"
  have rejected: "isl (Atoi (getenv env key fallback))" for fallback
    using bad by (simp add: getenv_set [of env key v] v)
  from key have "key = ''CONNECTION_MAX_RETRIES'' \<or> key = ''CONNECTION_RETRY_WAIT'' \<or>
      key = ''FLUENTD_BUFFER_LIMIT'' \<or> key = ''FLUENTD_RETRY_WAIT'' \<or>
      key = ''FLUENTD_MAX_RETRIES'' \<or> key = ''FLUENTD_WRITE_TIMEOUT''"
    by (simp only: list.set insert_iff empty_iff simp_thms)
  then show ?thesis
  proof (elim disjE)
    assume "key = ''CONNECTION_MAX_RETRIES''"
    then show ?thesis
      using rejected [of "''10''"] by (simp only: NewAdapter_error_CONNECTION_MAX_RETRIES)
  next
    assume "key = ''CONNECTION_RETRY_WAIT''"
    then show ?thesis
      using rejected [of "''1''"] by (simp only: NewAdapter_error_CONNECTION_RETRY_WAIT)
  next
    assume "key = ''FLUENTD_BUFFER_LIMIT''"
    then show ?thesis
      using rejected [of "Itoa defaultBufferLimit"]
      by (simp only: NewAdapter_construct_error construct_error_FLUENTD_BUFFER_LIMIT)
  next
    assume "key = ''FLUENTD_RETRY_WAIT''"
    then show ?thesis
      using rejected [of "Itoa defaultRetryWait"]
      by (simp only: NewAdapter_construct_error construct_error_FLUENTD_RETRY_WAIT)
  next
    assume "key = ''FLUENTD_MAX_RETRIES''"
    then show ?thesis
      using rejected [of "Itoa defaultMaxRetries"]
      by (simp only: NewAdapter_construct_error construct_error_FLUENTD_MAX_RETRIES)
  next
    assume "key = ''FLUENTD_WRITE_TIMEOUT''"
    then show ?thesis
      using rejected [of "Itoa defaultWriteTimeout"]
      by (simp only: NewAdapter_construct_error construct_error_FLUENTD_WRITE_TIMEOUT)
  qed
next
  fix key v
  assume key: "key \<in> set [''FLUENTD_ASYNC_CONNECT'', ''FLUENTD_SUBSECOND_PRECISION'', ''FLUENTD_REQUEST_ACK'']"
    and v: "env key = Some v" "v \<noteq> []" and bad: "isl (ParseBool v)"
  have rejected: "isl (ParseBool (getenv env key ''false''))"
    using bad by (simp add: getenv_set [of env key v] v)
  from key have "key = ''FLUENTD_ASYNC_CONNECT'' \<or> key = ''FLUENTD_SUBSECOND_PRECISION'' \<or>
      key = ''FLUENTD_REQUEST_ACK''"
    by (simp only: list.set insert_iff empty_iff simp_thms)
  then show ?thesis
  proof (elim disjE)
    assume "key = ''FLUENTD_ASYNC_CONNECT''"
    then show ?thesis
      using rejected by (simp only: NewAdapter_construct_error construct_error_FLUENTD_ASYNC_CONNECT)
  next
    assume "key = ''FLUENTD_SUBSECOND_PRECISION''"
    then show ?thesis
      using rejected by (simp only: NewAdapter_construct_error construct_error_FLUENTD_SUBSECOND_PRECISION)
  next
    assume "key = ''FLUENTD_REQUEST_ACK''"
    then show ?thesis
      using rejected by (simp only: NewAdapter_construct_error construct_error_FLUENTD_REQUEST_ACK)
  qed
qed

theorem malformed_setting_is_fatal_witness:
  "env_bad_ack ''FLUENTD_REQUEST_ACK'' = Some ''yes'' \<and>
   ParseBool ''yes'' = Inl (ErrSyntax ''ParseBool'' ''yes'') \<and>
   isl (fst (NewAdapter (collector refused_once) env_bad_ack fluentd_route))"
proof -
  have v: "env_bad_ack ''FLUENTD_REQUEST_ACK'' = Some ''yes''"
    by (simp add: env_bad_ack_def)
  have bad: "ParseBool ''yes'' = Inl (ErrSyntax ''ParseBool'' ''yes'')"
    by (simp add: ParseBool_def)
  have "(\<exists>key v. key \<in> set [''FLUENTD_ASYNC_CONNECT'', ''FLUENTD_SUBSECOND_PRECISION'', ''FLUENTD_REQUEST_ACK''] \<and>
                     env_bad_ack key = Some v \<and> v \<noteq> [] \<and> isl (ParseBool v))"
    using v bad by (intro exI [of _ "''FLUENTD_REQUEST_ACK''"] exI [of _ "''yes''"]) simp
  then have "isl (fst (NewAdapter (collector refused_once) env_bad_ack fluentd_route))"
    by (intro malformed_setting_is_fatal disjI2)
  with v bad show ?thesis by simp
qed

text \<open>
  Claim C7 as stated, refuted: \<open>FLUENTD_BUFFER_LIMIT\<close> set to the empty string is a value
  that \<open>Atoi\<close> rejects, yet NewAdapter takes the default in its place and returns an
  adapter.
\<close>

theorem empty_setting_is_not_fatal:
  "env_empty_limit ''FLUENTD_BUFFER_LIMIT'' = Some [] \<and>
   Atoi [] = Inl (ErrSyntax ''Atoi'' []) \<and>
   fst (NewAdapter (collector refused_once) env_empty_limit fluentd_route) =
     Inr \<lparr>writer = (), tagPrefix = ''docker'', tagSuffixLabel = []\<rparr>"
  by (simp add: NewAdapter_def construct_def collector_def env_empty_limit_def fluentd_route_def
        getenv_def os_Getenv_def Atoi_def is_digit_def Itoa_def decimal.simps digit_def
        defaultBufferLimit_def defaultRetryWait_def defaultMaxRetries_def defaultWriteTimeout_def
        ParseBool_def dial_loop.simps split: prod.splits)

text \<open>
  Claim C9. When \<open>CONNECTION_MAX_RETRIES\<close> parses to a negative number the dial loop makes
  no turn: it returns no error and no event, NewAdapter never dials, and when the
  transport is found and the wait parses, NewAdapter is exactly the construction of the
  client, with an empty trace.
\<close>

theorem negative_retries_skip_the_probe:
  assumes "Atoi (getenv env ''CONNECTION_MAX_RETRIES'' ''10'') = Inr connMaxRetries"
    and "connMaxRetries < 0"
  shows "dial_loop (Dial ext) route connMaxRetries connRetryWait 0 = (None, []) \<and>
         dialCalls (snd (NewAdapter ext env route)) = 0 \<and>
         (Lookup ext route \<and> Atoi (getenv env ''CONNECTION_RETRY_WAIT'' ''1'') = Inr connRetryWait \<longrightarrow>
            NewAdapter ext env route = (construct ext env route, []))"
proof -
  have skip: "dial_loop (Dial ext) route connMaxRetries w 0 = (None, [])" for w
    using assms(2) by (rule dial_loop_done)
  have "dialCalls (snd (NewAdapter ext env route)) = 0"
    by (simp add: NewAdapter_def assms(1) skip split: sum.splits)
  moreover have "NewAdapter ext env route = (construct ext env route, [])"
    if "Lookup ext route \<and> Atoi (getenv env ''CONNECTION_RETRY_WAIT'' ''1'') = Inr connRetryWait"
    using that by (simp add: NewAdapter_def assms(1) skip)
  ultimately show ?thesis using skip by blast
qed

theorem negative_retries_skip_the_probe_witness:
  "Atoi (getenv env_negative_retries ''CONNECTION_MAX_RETRIES'' ''10'') = Inr (- 1) \<and>
   dialCalls (snd (NewAdapter (collector refused) env_negative_retries fluentd_route)) = 0 \<and>
   NewAdapter (collector refused) env_negative_retries fluentd_route =
     (construct (collector refused) env_negative_retries fluentd_route, [])"
proof -
  have parsed: "Atoi (getenv env_negative_retries ''CONNECTION_MAX_RETRIES'' ''10'') = Inr (- 1)"
    by (simp add: env_negative_retries_def getenv_def os_Getenv_def Atoi_def is_digit_def)
  have rest: "Lookup (collector refused) fluentd_route \<and>
      Atoi (getenv env_negative_retries ''CONNECTION_RETRY_WAIT'' ''1'') = Inr 1"
    by (simp add: collector_def env_negative_retries_def getenv_def os_Getenv_def Atoi_def is_digit_def)
  from negative_retries_skip_the_probe [OF parsed, of "collector refused" fluentd_route 1] rest parsed
  show ?thesis by simp
qed

text \<open>
  Claim C10. \<open>getenv\<close> returns the fallback for a variable that is set to the empty
  string, as for one that is not set, and agrees on the two environments for every
  variable and fallback; so NewAdapter, which reads its settings through \<open>getenv\<close> only,
  cannot tell the two environments apart.
\<close>

theorem empty_variable_is_unset:
  "getenv (env(key \<mapsto> [])) key fallback = fallback \<and>
   getenv (env(key := None)) key fallback = fallback \<and>
   getenv (env(key \<mapsto> [])) name fallback = getenv (env(key := None)) name fallback \<and>
   NewAdapter ext (env(key \<mapsto> [])) route = NewAdapter ext (env(key := None)) route"
proof (intro conjI)
  show "getenv (env(key \<mapsto> [])) key fallback = fallback"
    by (simp add: getenv_def os_Getenv_def)
  show "getenv (env(key := None)) key fallback = fallback"
    by (simp add: getenv_def os_Getenv_def)
  show "getenv (env(key \<mapsto> [])) name fallback = getenv (env(key := None)) name fallback"
    by (simp only: getenv_empty_is_unset)
  show "NewAdapter ext (env(key \<mapsto> [])) route = NewAdapter ext (env(key := None)) route"
    unfolding NewAdapter_def construct_def by (simp only: getenv_empty_is_unset)
qed

theorem empty_variable_is_unset_witness:
  "getenv env_empty_prefix ''TAG_PREFIX'' ''docker'' = ''docker'' \<and>
   NewAdapter (collector refused_once) env_empty_prefix fluentd_route =
     NewAdapter (collector refused_once) (unset(''TAG_PREFIX'' := None)) fluentd_route"
  using empty_variable_is_unset [of unset "''TAG_PREFIX''" "''docker''" "''TAG_PREFIX''" "collector refused_once" fluentd_route]
  by (simp add: env_empty_prefix_def unset_def)

section \<open>The tag of an adapter without prefix\<close>

text \<open>
  Claim C5, as it holds. An adapter returned by NewAdapter has the prefix
  \<open>getenv("TAG_PREFIX", "docker")\<close>, which is never empty: when \<open>TAG_PREFIX\<close> is unset or
  empty the prefix is \<open>docker\<close>. Stream itself keeps the separator: on an adapter whose
  prefix is empty, every tag is a dot followed by the suffix.
\<close>

theorem empty_prefix_keeps_the_separator:
  "(fst (NewAdapter ext env route) = Inr ad \<longrightarrow>
      tagPrefix ad = getenv env ''TAG_PREFIX'' ''docker'' \<and>
      tagPrefix ad \<noteq> [] \<and>
      (os_Getenv env ''TAG_PREFIX'' = [] \<longrightarrow> tagPrefix ad = ''docker''))
   \<and> (tagPrefix ad' = [] \<longrightarrow>
      map fst (postCalls (snd (Stream post env' ad' logstream))) =
      map (\<lambda>m. ''.'' @
                (case Labels (Config (Container m)) (tagSuffixLabel ad') of
                   None \<Rightarrow> Name (Container m) @ ''-'' @ Hostname (Config (Container m))
                 | Some v \<Rightarrow> if v = [] then Name (Container m) @ ''-'' @ Hostname (Config (Container m))
                             else v))
          (filter (\<lambda>m. \<not> MatchString blank_pattern (Data m)) logstream))"
proof (intro conjI impI)
  assume "fst (NewAdapter ext env route) = Inr ad"
  then have prefix: "tagPrefix ad = getenv env ''TAG_PREFIX'' ''docker''"
    by (intro construct_tagPrefix NewAdapter_Inr)
  then show "tagPrefix ad = getenv env ''TAG_PREFIX'' ''docker''" .
  show "tagPrefix ad \<noteq> []"
    by (simp add: prefix getenv_nonempty)
  show "tagPrefix ad = ''docker''" if "os_Getenv env ''TAG_PREFIX'' = []"
    using that by (simp add: prefix getenv_def)
next
  assume "tagPrefix ad' = []"
  then show "map fst (postCalls (snd (Stream post env' ad' logstream))) =
      map (\<lambda>m. ''.'' @
                (case Labels (Config (Container m)) (tagSuffixLabel ad') of
                   None \<Rightarrow> Name (Container m) @ ''-'' @ Hostname (Config (Container m))
                 | Some v \<Rightarrow> if v = [] then Name (Container m) @ ''-'' @ Hostname (Config (Container m))
                             else v))
          (filter (\<lambda>m. \<not> MatchString blank_pattern (Data m)) logstream)"
    by (simp add: Stream_postCalls postCalls_range_loop set_tag_def index_def comp_def
             split: option.splits)
qed

theorem empty_prefix_keeps_the_separator_witness:
  "fst (NewAdapter (collector refused_once) env_empty_prefix fluentd_route) =
     Inr \<lparr>writer = (), tagPrefix = ''docker'', tagSuffixLabel = []\<rparr> \<and>
   getenv env_empty_prefix ''TAG_PREFIX'' ''docker'' = ''docker'' \<and>
   tagPrefix no_prefix = [] \<and>
   map fst (postCalls (snd (Stream accepts_all unset no_prefix [line api1 ''GET /'' 1, line web1 ''ready'' 2]))) =
     [''.api1-host-b'', ''.web1-host-a'']"
proof -
  have built: "fst (NewAdapter (collector refused_once) env_empty_prefix fluentd_route) =
     Inr \<lparr>writer = (), tagPrefix = ''docker'', tagSuffixLabel = []\<rparr>"
    by (simp add: NewAdapter_def construct_def collector_def env_empty_prefix_def fluentd_route_def
          getenv_def os_Getenv_def Atoi_def is_digit_def Itoa_def decimal.simps digit_def
          defaultBufferLimit_def defaultRetryWait_def defaultMaxRetries_def defaultWriteTimeout_def
          ParseBool_def dial_loop.simps split: prod.splits)
  have none: "tagPrefix no_prefix = []"
    by (simp add: no_prefix_def)
  note both = empty_prefix_keeps_the_separator
      [of "collector refused_once" env_empty_prefix fluentd_route
          "\<lparr>writer = (), tagPrefix = ''docker'', tagSuffixLabel = []\<rparr>"
          no_prefix accepts_all unset "[line api1 ''GET /'' 1, line web1 ''ready'' 2]"]
  from both [THEN conjunct1, THEN mp, OF built] both [THEN conjunct2, THEN mp, OF none] built none
  show ?thesis
    by (simp add: MatchString_blank posix_space_def line_def api1_def web1_def no_prefix_def)
qed

text \<open>
  Claim C5 as stated, refuted: on an adapter whose prefix is empty, the message of
  container \<open>web1\<close> on \<open>host-a\<close> is posted under the tag \<open>.web1-host-a\<close>.
\<close>

theorem empty_prefix_tag_starts_with_dot:
  "tagPrefix no_prefix = [] \<and>
   map fst (postCalls (snd (Stream accepts_all unset no_prefix [line web1 ''ready'' 2]))) = [''.web1-host-a'']"
  by (simp add: Stream_postCalls postCalls_range_loop MatchString_blank posix_space_def
        no_prefix_def line_def web1_def set_tag_def index_def)

end
